theory Spec2Isabelle
  imports Main "HOL-Library.Word"
begin

section \<open>The QR-code generator of \<^verbatim>\<open>scripts/src/main.py\<close> and its smoke test\<close>

text \<open>
  The program is a sequence of calls into the third-party \<^verbatim>\<open>qrcode\<close> package, two
  \<^verbatim>\<open>print\<close> statements and one file written by the package. The package is not part
  of the repository, so it is a parameter of the model: a record of its five operations.
  Standard output is a parameter too, since \<^verbatim>\<open>print\<close> raises when the stream cannot
  take the line. Everything the program itself does (the order of the calls, the
  arguments it passes, what it prints, how an exception leaves it) is written out below,
  statement by statement.
\<close>

subsection \<open>Exceptions, the file system and the observable world\<close>

text \<open>
  A raised exception is a value: the name of its class and its message. Only ordinary
  exceptions (subclasses of \<^verbatim>\<open>Exception\<close>) are modelled.
\<close>

datatype exn = PyExc (exc_class: string) (exc_msg: string)

type_synonym byte = "8 word"

text \<open>The file system holds regular files only: a path is mapped to the bytes stored there.\<close>

type_synonym fs = "string \<rightharpoonup> byte list"

text \<open>The configuration object handed to \<^verbatim>\<open>qrcode.QRCode\<close>.\<close>

datatype ec_level = ERROR_CORRECT_L | ERROR_CORRECT_M | ERROR_CORRECT_Q | ERROR_CORRECT_H

record qr_config =
  version :: int
  error_correction :: ec_level
  box_size :: int
  border :: int

text \<open>
  Each call into the package is recorded, with the arguments the program chose, in the
  order in which the calls are made.
\<close>

datatype lib_call =
    QRCode_call qr_config
  | add_data_call string
  | make_call bool
  | make_image_call string string
  | save_call string

record world =
  argv :: "string list"
  stdout :: "string list"
  files :: fs
  calls :: "lib_call list"

text \<open>
  The package: \<open>'qr\<close> is the type of its encoder objects and \<open>'img\<close> the type of its
  images. An operation either raises (\<open>Inl\<close>) or returns the object it produced or
  updated. \<^verbatim>\<open>img.save\<close> acts on the file system; when it raises, the file system it
  leaves behind may already have been touched.
\<close>

record ('qr, 'img) qrcode_lib =
  lib_QRCode :: "qr_config \<Rightarrow> exn + 'qr"
  lib_add_data :: "'qr \<Rightarrow> string \<Rightarrow> exn + 'qr"
  lib_make :: "'qr \<Rightarrow> bool \<Rightarrow> exn + 'qr"
  lib_make_image :: "'qr \<Rightarrow> string \<Rightarrow> string \<Rightarrow> exn + 'img"
  lib_save :: "'img \<Rightarrow> string \<Rightarrow> fs \<Rightarrow> fs \<times> exn option"

text \<open>The result of running a procedure: it raised in some world, or it returned in one.\<close>

type_synonym outcome = "exn \<times> world + world"

definition world_of :: "outcome \<Rightarrow> world" where
  "world_of r = (case r of Inl (e, w) \<Rightarrow> w | Inr w \<Rightarrow> w)"

text \<open>
  Standard output. \<^verbatim>\<open>print(s)\<close> hands the line to \<^verbatim>\<open>sys.stdout\<close>, which encodes
  it and writes it; when that raises, nothing of the line has been written. A console
  tells, for a line, whether writing it raises, and what. A character of the model is a
  code point below 256: an ASCII stream refuses the upper half of them with
  \<^verbatim>\<open>UnicodeEncodeError\<close>, a UTF-8 stream takes them all.
\<close>

type_synonym console = "string \<Rightarrow> exn option"

datatype encoding = ASCII | UTF_8

definition stdout_console :: "encoding \<Rightarrow> console" where
  "stdout_console enc line =
    (case enc of
       UTF_8 \<Rightarrow> None
     | ASCII \<Rightarrow>
         if list_all (\<lambda>c. (of_char c :: nat) < 128) line then None
         else Some (PyExc ''UnicodeEncodeError'' ''ordinal not in range(128)''))"

definition py_print :: "console \<Rightarrow> string \<Rightarrow> world \<Rightarrow> outcome" where
  "py_print con line w =
    (case con line of
       Some e \<Rightarrow> Inl (e, w)
     | None \<Rightarrow> Inr (w\<lparr>stdout := stdout w @ [line]\<rparr>))"

definition record_call :: "lib_call \<Rightarrow> world \<Rightarrow> world" where
  "record_call c w = w\<lparr>calls := calls w @ [c]\<rparr>"

subsection \<open>\<^verbatim>\<open>scripts/src/main.py\<close>\<close>

text \<open>
  \<^verbatim>\<open>generate_qr_code(url, output_filename)\<close>, lines 4 to 19, on the console \<open>con\<close>.
  There is no \<^verbatim>\<open>try\<close> in the body: the first statement that raises, a \<^verbatim>\<open>print\<close> or
  an operation of the package, ends the procedure with that exception.
\<close>

definition generate_qr_code_on ::
  "console \<Rightarrow> ('qr, 'img) qrcode_lib \<Rightarrow> string \<Rightarrow> string \<Rightarrow> world \<Rightarrow> outcome" where
  "generate_qr_code_on con L url output_filename w =
    (case py_print con (''Generating QR code for: '' @ url) w of
       Inl (e, w0) \<Rightarrow> Inl (e, w0)
     | Inr w1 \<Rightarrow>
    (let cfg = \<lparr>version = 1, error_correction = ERROR_CORRECT_L, box_size = 10, border = 4\<rparr>;
         w2 = record_call (QRCode_call cfg) w1
     in case lib_QRCode L cfg of
          Inl e \<Rightarrow> Inl (e, w2)
        | Inr qr \<Rightarrow>
     (let w3 = record_call (add_data_call url) w2
      in case lib_add_data L qr url of
          Inl e \<Rightarrow> Inl (e, w3)
        | Inr qr1 \<Rightarrow>
     (let w4 = record_call (make_call True) w3
      in case lib_make L qr1 True of
          Inl e \<Rightarrow> Inl (e, w4)
        | Inr qr2 \<Rightarrow>
     (let w5 = record_call (make_image_call ''black'' ''white'') w4
      in case lib_make_image L qr2 ''black'' ''white'' of
          Inl e \<Rightarrow> Inl (e, w5)
        | Inr img \<Rightarrow>
     (let w6 = record_call (save_call output_filename) w5
      in case lib_save L img output_filename (files w6) of
          (fs', Some e) \<Rightarrow> Inl (e, w6\<lparr>files := fs'\<rparr>)
        | (fs', None) \<Rightarrow>
            py_print con (''Successfully saved QR code to '' @ output_filename)
              (w6\<lparr>files := fs'\<rparr>)))))))"

text \<open>\<^verbatim>\<open>main()\<close>, lines 22 to 26.\<close>

definition main_on :: "console \<Rightarrow> ('qr, 'img) qrcode_lib \<Rightarrow> world \<Rightarrow> outcome" where
  "main_on con L w =
    (let url = ''https://irishlab.io'';
         output_filename = ''website_qr.png''
     in generate_qr_code_on con L url output_filename w)"


text \<open>
  The three procedures when standard output is a UTF-8 stream, which takes every line
  of the model. The statements about package failures, the configuration, the entry
  point and the smoke test are made for this case.
\<close>

definition generate_qr_code ::
  "('qr, 'img) qrcode_lib \<Rightarrow> string \<Rightarrow> string \<Rightarrow> world \<Rightarrow> outcome" where
  "generate_qr_code L url output_filename w =
     generate_qr_code_on (stdout_console UTF_8) L url output_filename w"

definition main :: "('qr, 'img) qrcode_lib \<Rightarrow> world \<Rightarrow> outcome" where
  "main L w = main_on (stdout_console UTF_8) L w"


subsection \<open>\<^verbatim>\<open>scripts/tests/test_main.py\<close>\<close>









text \<open>
  The module body of the test file, lines 1 to 8. \<^verbatim>\<open>os.path.dirname\<close> and
  \<^verbatim>\<open>os.path.join\<close> are the POSIX ones, on two arguments.
\<close>

definition os_path_dirname :: "string \<Rightarrow> string" where
  "os_path_dirname p =
    (let head = rev (dropWhile (\<lambda>c. c \<noteq> CHR ''/'') (rev p))
     in if head \<noteq> [] \<and> \<not> list_all (\<lambda>c. c = CHR ''/'') head
        then rev (dropWhile (\<lambda>c. c = CHR ''/'') (rev head))
        else head)"

definition os_path_join :: "string \<Rightarrow> string \<Rightarrow> string" where
  "os_path_join a b =
    (if take 1 b = ''/'' then b
     else if a = [] \<or> last a = CHR ''/'' then a @ b
     else a @ ''/'' @ b)"

text \<open>
  The import system is a parameter: \<open>finder path m\<close> tells whether the statement
  \<^verbatim>\<open>import m\<close> succeeds when \<^verbatim>\<open>sys.path\<close> is \<open>path\<close>. \<open>abs_file\<close> is the value of
  \<^verbatim>\<open>os.path.abspath(__file__)\<close>. \<^verbatim>\<open>os\<close> and \<^verbatim>\<open>sys\<close> are loaded before any
  script runs, so lines 1 and 2 change nothing. The module body returns the new
  \<^verbatim>\<open>sys.path\<close>, or raises at line 4.
\<close>

definition test_main_module ::
  "(string list \<Rightarrow> string \<Rightarrow> bool) \<Rightarrow> string \<Rightarrow> string list \<Rightarrow> exn + string list" where
  "test_main_module finder abs_file sys_path =
    (if \<not> finder sys_path ''main''
     then Inl (PyExc ''ModuleNotFoundError'' ''No module named main'')
     else Inr (sys_path @
                [os_path_join (os_path_dirname (os_path_dirname abs_file)) ''src'']))"

subsection \<open>Concrete inputs\<close>

text \<open>
  A small stand-in for the package, used as a concrete input. Its encoder object is the
  payload collected so far and its image is that payload; a saved file is four header
  bytes followed by one byte per character. The number \<open>k\<close> picks a behaviour: 0 never
  fails; 1 to 5 make the first to the fifth operation raise (the fifth leaves an empty
  file behind); 6 makes \<^verbatim>\<open>save\<close> return after writing an empty file; 7 makes it return
  without writing anything.
\<close>

definition demo_bytes :: "string \<Rightarrow> byte list" where
  "demo_bytes s = [137, 80, 78, 71] @ map (\<lambda>c. of_nat (of_char c)) s"

definition demo_lib :: "nat \<Rightarrow> (string, string) qrcode_lib" where
  "demo_lib k =
    \<lparr>lib_QRCode = (\<lambda>cfg. if k = 1 then Inl (PyExc ''ValueError'' ''bad configuration'') else Inr []),
     lib_add_data = (\<lambda>qr d. if k = 2 then Inl (PyExc ''TypeError'' ''bad data'') else Inr (qr @ d)),
     lib_make = (\<lambda>qr fit. if k = 3 then Inl (PyExc ''DataOverflowError'' []) else Inr qr),
     lib_make_image = (\<lambda>qr fc bc. if k = 4 then Inl (PyExc ''ImportError'' ''no imaging backend'') else Inr qr),
     lib_save = (\<lambda>img p fs.
        if k = 5 then (fs(p \<mapsto> []), Some (PyExc ''OSError'' ''No space left on device''))
        else if k = 6 then (fs(p \<mapsto> []), None)
        else if k = 7 then (fs, None)
        else (fs(p \<mapsto> demo_bytes img), None))\<rparr>"

definition demo_world :: world where
  "demo_world = \<lparr>argv = [''main.py''], stdout = [], files = Map.empty, calls = []\<rparr>"

text \<open>An import system in which \<^verbatim>\<open>main\<close> is found in one directory only.\<close>

definition demo_finder :: "string list \<Rightarrow> string \<Rightarrow> bool" where
  "demo_finder path m = (m = ''main'' \<and> ''/repo/scripts/src'' \<in> set path)"

text \<open>The configuration written in the source, for the statements below.\<close>

abbreviation source_config :: qr_config where
  "source_config \<equiv> \<lparr>version = 1, error_correction = ERROR_CORRECT_L, box_size = 10, border = 4\<rparr>"

text \<open>Applying a change of the world to an outcome, whichever way the procedure ended.\<close>

definition outcome_map :: "(world \<Rightarrow> world) \<Rightarrow> outcome \<Rightarrow> outcome" where
  "outcome_map f r = (case r of Inl (e, w) \<Rightarrow> Inl (e, f w) | Inr w \<Rightarrow> Inr (f w))"


section \<open>Properties\<close>

subsection \<open>Auxiliary facts\<close>

text \<open>The procedures on a UTF-8 stream, with the prints that cannot fail carried out.\<close>

lemma generate_qr_code_eq:
  "generate_qr_code L url output_filename w =
    (let w1 = w\<lparr>stdout := stdout w @ [''Generating QR code for: '' @ url]\<rparr>;
         cfg = \<lparr>version = 1, error_correction = ERROR_CORRECT_L, box_size = 10, border = 4\<rparr>;
         w2 = record_call (QRCode_call cfg) w1
     in case lib_QRCode L cfg of
          Inl e \<Rightarrow> Inl (e, w2)
        | Inr qr \<Rightarrow>
     (let w3 = record_call (add_data_call url) w2
      in case lib_add_data L qr url of
          Inl e \<Rightarrow> Inl (e, w3)
        | Inr qr1 \<Rightarrow>
     (let w4 = record_call (make_call True) w3
      in case lib_make L qr1 True of
          Inl e \<Rightarrow> Inl (e, w4)
        | Inr qr2 \<Rightarrow>
     (let w5 = record_call (make_image_call ''black'' ''white'') w4
      in case lib_make_image L qr2 ''black'' ''white'' of
          Inl e \<Rightarrow> Inl (e, w5)
        | Inr img \<Rightarrow>
     (let w6 = record_call (save_call output_filename) w5
      in case lib_save L img output_filename (files w6) of
          (fs', Some e) \<Rightarrow> Inl (e, w6\<lparr>files := fs'\<rparr>)
        | (fs', None) \<Rightarrow>
            Inr (w6\<lparr>files := fs',
                    stdout := stdout w6 @
                      [''Successfully saved QR code to '' @ output_filename]\<rparr>))))))"
  by (simp add: generate_qr_code_def generate_qr_code_on_def py_print_def stdout_console_def
        Let_def split: sum.splits prod.splits option.splits)

lemma main_eq:
  "main L w = generate_qr_code L ''https://irishlab.io'' ''website_qr.png'' w"
  by (simp add: main_def main_on_def generate_qr_code_def)




lemmas gen_defs = generate_qr_code_eq Let_def record_call_def








subsection \<open>The generation procedure\<close>





text \<open>
  C6. The entry point reads no command-line argument: \<^verbatim>\<open>main\<close> is a call of
  \<^verbatim>\<open>generate_qr_code\<close> with the literals \<^verbatim>\<open>https://irishlab.io\<close> and
  \<^verbatim>\<open>website_qr.png\<close>, whatever \<^verbatim>\<open>sys.argv\<close> holds, and these are the only payload
  and the only path the package is ever given.
\<close>

theorem main_fixed_arguments:
  "main L w = generate_qr_code L ''https://irishlab.io'' ''website_qr.png'' w \<and>
   main L (w\<lparr>argv := a\<rparr>) = outcome_map (\<lambda>v. v\<lparr>argv := a\<rparr>) (main L w) \<and>
   (\<exists>cs. calls (world_of (main L w)) = calls w @ cs \<and>
      (\<forall>c \<in> set cs. (\<forall>u. c = add_data_call u \<longrightarrow> u = ''https://irishlab.io'') \<and>
                      (\<forall>p. c = save_call p \<longrightarrow> p = ''website_qr.png'')))"
  by (auto simp: main_eq gen_defs world_of_def outcome_map_def
      split: sum.splits prod.splits option.splits)

theorem main_fixed_arguments_witness:
  "main (demo_lib 0) (demo_world\<lparr>argv := [''main.py'', ''https://other.example'', ''other.png'']\<rparr>) =
     Inr \<lparr>argv = [''main.py'', ''https://other.example'', ''other.png''],
          stdout = [''Generating QR code for: https://irishlab.io'',
                    ''Successfully saved QR code to website_qr.png''],
          files = [''website_qr.png'' \<mapsto> demo_bytes ''https://irishlab.io''],
          calls = [QRCode_call source_config, add_data_call ''https://irishlab.io'',
                   make_call True, make_image_call ''black'' ''white'',
                   save_call ''website_qr.png'']\<rparr>"
proof -
  have "generate_qr_code (demo_lib 0) ''https://irishlab.io'' ''website_qr.png'' demo_world =
     Inr \<lparr>argv = [''main.py''],
          stdout = [''Generating QR code for: https://irishlab.io'',
                    ''Successfully saved QR code to website_qr.png''],
          files = [''website_qr.png'' \<mapsto> demo_bytes ''https://irishlab.io''],
          calls = [QRCode_call source_config, add_data_call ''https://irishlab.io'',
                   make_call True, make_image_call ''black'' ''white'',
                   save_call ''website_qr.png'']\<rparr>"
    by (simp add: gen_defs demo_lib_def demo_world_def)
  with main_fixed_arguments [of "demo_lib 0" demo_world
         "[''main.py'', ''https://other.example'', ''other.png'']"]
  show ?thesis by (simp add: outcome_map_def)
qed

text \<open>
  C7 does not hold for every target: the opening \<^verbatim>\<open>print\<close> comes before the
  first call into the package, so a target that standard output cannot encode ends the
  procedure there. On an ASCII stream the target \<^verbatim>\<open>caf\<close> followed by code point 233
  raises \<^verbatim>\<open>UnicodeEncodeError\<close>; the world is unchanged, no call has been made, and the
  package at hand would have taken the target.
\<close>

theorem generate_qr_code_unprintable_target_counterexample:
  "generate_qr_code_on (stdout_console ASCII) (demo_lib 0) (''caf'' @ [CHR 0xE9]) ''out.png''
     demo_world =
     Inl (PyExc ''UnicodeEncodeError'' ''ordinal not in range(128)'', demo_world) \<and>
   calls demo_world = [] \<and>
   generate_qr_code_on (stdout_console UTF_8) (demo_lib 0) (''caf'' @ [CHR 0xE9]) ''out.png''
     demo_world =
     Inr (demo_world\<lparr>stdout := [''Generating QR code for: caf'' @ [CHR 0xE9],
                                ''Successfully saved QR code to out.png''],
                      files := [''out.png'' \<mapsto> demo_bytes (''caf'' @ [CHR 0xE9])],
                      calls := [QRCode_call source_config, add_data_call (''caf'' @ [CHR 0xE9]),
                                make_call True, make_image_call ''black'' ''white'',
                                save_call ''out.png'']\<rparr>)"
  by (simp add: generate_qr_code_on_def py_print_def stdout_console_def record_call_def
        Let_def demo_lib_def demo_world_def)

text \<open>
  C7, amended. \<^verbatim>\<open>generate_qr_code\<close> checks neither argument. When the opening line
  cannot be written, the procedure ends with the exception of \<^verbatim>\<open>print\<close> and the world
  unchanged. For every other target and path, the empty string and a string that is no
  URL included, the constructor of the package is called on the configuration of the
  source and its failure is the failure of the procedure; an exception that leaves the
  procedure was raised by an operation of the package, called on the target and the path
  as the caller gave them, or by the closing \<^verbatim>\<open>print\<close>; and when the procedure returns,
  the five operations have been applied in order to those arguments and the file system
  is the one \<^verbatim>\<open>save\<close> returned.
\<close>

theorem generate_qr_code_on_no_validation:
  "(\<forall>e. con (''Generating QR code for: '' @ url) = Some e \<longrightarrow>
      generate_qr_code_on con L url output_filename w = Inl (e, w)) \<and>
   (con (''Generating QR code for: '' @ url) = None \<longrightarrow>
      (\<exists>cs. calls (world_of (generate_qr_code_on con L url output_filename w)) =
             calls w @ QRCode_call source_config # cs) \<and>
      (\<forall>e. lib_QRCode L source_config = Inl e \<longrightarrow>
         (\<exists>w'. generate_qr_code_on con L url output_filename w = Inl (e, w'))) \<and>
      (\<forall>e w'. generate_qr_code_on con L url output_filename w = Inl (e, w') \<longrightarrow>
         lib_QRCode L source_config = Inl e \<or>
         (\<exists>qr. lib_QRCode L source_config = Inr qr \<and>
            (lib_add_data L qr url = Inl e \<or>
             (\<exists>qr1. lib_add_data L qr url = Inr qr1 \<and>
                (lib_make L qr1 True = Inl e \<or>
                 (\<exists>qr2. lib_make L qr1 True = Inr qr2 \<and>
                    (lib_make_image L qr2 ''black'' ''white'' = Inl e \<or>
                     (\<exists>img. lib_make_image L qr2 ''black'' ''white'' = Inr img \<and>
                        (snd (lib_save L img output_filename (files w)) = Some e \<or>
                         snd (lib_save L img output_filename (files w)) = None \<and>
                         con (''Successfully saved QR code to '' @ output_filename) =
                           Some e))))))))) \<and>
      (\<forall>w'. generate_qr_code_on con L url output_filename w = Inr w' \<longrightarrow>
         (\<exists>qr qr1 qr2 img.
            lib_QRCode L source_config = Inr qr \<and> lib_add_data L qr url = Inr qr1 \<and>
            lib_make L qr1 True = Inr qr2 \<and>
            lib_make_image L qr2 ''black'' ''white'' = Inr img \<and>
            lib_save L img output_filename (files w) = (files w', None)) \<and>
         calls w' = calls w @ [QRCode_call source_config, add_data_call url, make_call True,
                               make_image_call ''black'' ''white'',
                               save_call output_filename]))"
proof -
  have a: "\<forall>e. con (''Generating QR code for: '' @ url) = Some e \<longrightarrow>
      generate_qr_code_on con L url output_filename w = Inl (e, w)"
    by (simp add: generate_qr_code_on_def py_print_def)
  have b: ?thesis if n: "con (''Generating QR code for: '' @ url) = None"
    using n
    by (auto simp: generate_qr_code_on_def py_print_def record_call_def Let_def world_of_def
          split: sum.splits prod.splits option.splits)
  show ?thesis
  proof (cases "con (''Generating QR code for: '' @ url)")
    case None
    then show ?thesis by (rule b)
  next
    case (Some e)
    with a show ?thesis by simp
  qed
qed

theorem generate_qr_code_on_no_validation_witness:
  "(\<exists>w'. generate_qr_code_on (stdout_console ASCII) (demo_lib 0) [] [] demo_world = Inr w' \<and>
      calls w' = [QRCode_call source_config, add_data_call [], make_call True,
                  make_image_call ''black'' ''white'', save_call []]) \<and>
   (\<exists>w'. generate_qr_code_on (stdout_console ASCII) (demo_lib 0) ''not a url'' ''out.png''
            demo_world = Inr w' \<and>
      calls w' = [QRCode_call source_config, add_data_call ''not a url'', make_call True,
                  make_image_call ''black'' ''white'', save_call ''out.png''] \<and>
      files w' = [''out.png'' \<mapsto> demo_bytes ''not a url''])"
proof -
  obtain w1 where
    r1: "generate_qr_code_on (stdout_console ASCII) (demo_lib 0) [] [] demo_world = Inr w1"
    by (simp add: generate_qr_code_on_def py_print_def stdout_console_def Let_def demo_lib_def)
  obtain w2 where
    r2: "generate_qr_code_on (stdout_console ASCII) (demo_lib 0) ''not a url'' ''out.png''
           demo_world = Inr w2"
    by (simp add: generate_qr_code_on_def py_print_def stdout_console_def Let_def demo_lib_def)
  have e: "calls demo_world = []" "files demo_world = Map.empty"
    by (simp_all add: demo_world_def)
  have p1: "stdout_console ASCII (''Generating QR code for: '' @ []) = None"
    by (simp add: stdout_console_def)
  have p2: "stdout_console ASCII (''Generating QR code for: '' @ ''not a url'') = None"
    by (simp add: stdout_console_def)
  from generate_qr_code_on_no_validation
         [of "stdout_console ASCII" "[]" "demo_lib 0" "[]" demo_world] p1 r1 e
  have c1: "calls w1 = [QRCode_call source_config, add_data_call [], make_call True,
                  make_image_call ''black'' ''white'', save_call []]" by simp
  from generate_qr_code_on_no_validation
         [of "stdout_console ASCII" "''not a url''" "demo_lib 0" "''out.png''" demo_world] p2 r2
  have c2: "calls w2 = calls demo_world @ [QRCode_call source_config, add_data_call ''not a url'',
                  make_call True, make_image_call ''black'' ''white'', save_call ''out.png'']"
    and s2: "\<exists>qr qr1 qr2 img.
            lib_QRCode (demo_lib 0) source_config = Inr qr \<and>
            lib_add_data (demo_lib 0) qr ''not a url'' = Inr qr1 \<and>
            lib_make (demo_lib 0) qr1 True = Inr qr2 \<and>
            lib_make_image (demo_lib 0) qr2 ''black'' ''white'' = Inr img \<and>
            lib_save (demo_lib 0) img ''out.png'' (files demo_world) = (files w2, None)"
    by simp_all
  from s2 have f2: "files w2 = [''out.png'' \<mapsto> demo_bytes ''not a url'']"
    by (auto simp: demo_lib_def e)
  from c1 c2 f2 r1 r2 e show ?thesis by auto
qed

subsection \<open>The smoke test\<close>



text \<open>
  C9. In the module body of the test file the import of \<^verbatim>\<open>main\<close> runs before the
  directory is appended to \<^verbatim>\<open>sys.path\<close>. The body gets past the import exactly when
  \<^verbatim>\<open>main\<close> can be imported with the path as it was before; when it cannot, the body
  raises and nothing is appended, whether or not the directory that the next statement
  would have appended holds the module.
\<close>

theorem test_main_import_precedes_path_append:
  "((\<exists>p'. test_main_module finder abs_file sys_path = Inr p') \<longleftrightarrow> finder sys_path ''main'') \<and>
   (\<not> finder sys_path ''main'' \<longrightarrow>
      test_main_module finder abs_file sys_path =
        Inl (PyExc ''ModuleNotFoundError'' ''No module named main'')) \<and>
   (finder sys_path ''main'' \<longrightarrow>
      test_main_module finder abs_file sys_path =
        Inr (sys_path @ [os_path_join (os_path_dirname (os_path_dirname abs_file)) ''src'']))"
  by (simp add: test_main_module_def)

theorem test_main_import_precedes_path_append_witness:
  "\<not> demo_finder [''/repo/scripts/tests''] ''main'' \<and>
   demo_finder ([''/repo/scripts/tests''] @
      [os_path_join (os_path_dirname (os_path_dirname ''/repo/scripts/tests/test_main.py'')) ''src''])
      ''main'' \<and>
   test_main_module demo_finder ''/repo/scripts/tests/test_main.py'' [''/repo/scripts/tests''] =
     Inl (PyExc ''ModuleNotFoundError'' ''No module named main'') \<and>
   test_main_module demo_finder ''/repo/scripts/tests/test_main.py''
       [''/repo/scripts/tests'', ''/repo/scripts/src''] =
     Inr [''/repo/scripts/tests'', ''/repo/scripts/src'', ''/repo/scripts/src'']"
proof -
  have d: "os_path_join (os_path_dirname (os_path_dirname ''/repo/scripts/tests/test_main.py'')) ''src''
           = ''/repo/scripts/src''"
    by (simp add: os_path_join_def os_path_dirname_def)
  have n: "\<not> demo_finder [''/repo/scripts/tests''] ''main''"
    by (simp add: demo_finder_def)
  have y: "demo_finder [''/repo/scripts/tests'', ''/repo/scripts/src''] ''main''"
    by (simp add: demo_finder_def)
  from test_main_import_precedes_path_append
         [of demo_finder "''/repo/scripts/tests/test_main.py''" "[''/repo/scripts/tests'']"] n
  have a: "test_main_module demo_finder ''/repo/scripts/tests/test_main.py'' [''/repo/scripts/tests''] =
     Inl (PyExc ''ModuleNotFoundError'' ''No module named main'')" by blast
  from test_main_import_precedes_path_append
         [of demo_finder "''/repo/scripts/tests/test_main.py''"
             "[''/repo/scripts/tests'', ''/repo/scripts/src'']"] y
  have b: "test_main_module demo_finder ''/repo/scripts/tests/test_main.py''
       [''/repo/scripts/tests'', ''/repo/scripts/src''] =
     Inr [''/repo/scripts/tests'', ''/repo/scripts/src'', ''/repo/scripts/src'']"
    unfolding d by simp
  from n y a b d show ?thesis by simp
qed

end
